theory Spec2Isabelle
  imports Main
begin

section \<open>Thrown values\<close>

text \<open>
  The source throws and catches JavaScript values. The code inspects four things of a
  caught value: whether it is an \<open>Error\<close> instance, its \<open>name\<close>, its \<open>message\<close>, and
  whether \<open>axios.isAxiosError\<close> holds of it. A thrown value is a record of these.
\<close>

record js_error =
  instanceof_Error :: bool
  name :: string
  message :: string
  isAxiosError :: bool

text \<open>\<open>new Error(msg)\<close>.\<close>

definition new_Error :: "string \<Rightarrow> js_error" where
  "new_Error msg =
     \<lparr>instanceof_Error = True, name = ''Error'', message = msg, isAxiosError = False\<rparr>"

text \<open>
  The \<open>TypeError\<close> the engine raises for \<open>undefined.split(':')\<close>. The message is the
  engine's (here V8's); only the name matters below.
\<close>

definition TypeError_split_of_undefined :: js_error where
  "TypeError_split_of_undefined =
     \<lparr>instanceof_Error = True, name = ''TypeError'',
      message = ''Cannot read properties of undefined (reading 'split')'',
      isAxiosError = False\<rparr>"

text \<open>A template literal prints \<open>null\<close> for a null string.\<close>

definition template_str :: "string option \<Rightarrow> string" where
  "template_str s = (case s of None \<Rightarrow> ''null'' | Some t \<Rightarrow> t)"

section \<open>Data model (index.ts, lines 4-47)\<close>

text \<open>
  \<open>Record<string, any>\<close> is an association list from keys to serialised values; the code
  only passes such objects through. Numbers are integers.
\<close>

type_synonym json_object = "(string \<times> string) list"

datatype wait_type = Poll | Block

record WaitOptions =
  type :: "wait_type option"
  interval :: "int option"
  timeout :: "int option"

datatype webhook_event = Start | Output | Logs | Completed

record PredictionInput =
  pi_model :: string
  pi_input :: json_object
  pi_webhook :: "string option"
  pi_webhook_events_filter :: "webhook_event list option"

record PredictionResponse =
  id' :: string
  model :: string
  version :: "string option"
  input' :: json_object
  logs :: "string option"
  output' :: "string list option"
  error :: "string option"
  status :: string
  created_at :: string
  started_at :: "string option"
  completed_at :: "string option"
  metrics :: "json_object option"

text \<open>
  An \<open>AbortSignal\<close> is an object whose \<open>aborted\<close> flag other code may set while the wait is
  suspended. It is the value of the flag as a function of the moment it is read, the
  moment being the number of status fetches completed so far.
\<close>

type_synonym AbortSignal = "nat \<Rightarrow> bool"

text \<open>
  The progress callback is the caller's; what the code does with it is to invoke it with a
  snapshot. Each invocation is an event of the trace, and the callback itself is the flag
  saying whether one was supplied. A callback does not throw.
\<close>

record RunOptions =
  ro_input :: json_object
  ro_wait :: "WaitOptions option"
  ro_webhook :: "string option"
  ro_webhook_events_filter :: "webhook_event list option"
  ro_signal :: "AbortSignal option"
  ro_progress :: bool

section \<open>The transport and the trace of effects\<close>

text \<open>
  The HTTP client (axios) is a collaborator outside the repository. Its replies are a
  parameter: what the creating POST answers, what the blocking POST answers, and what the
  k-th status GET answers. A reply is the response's data or the value the call throws.
\<close>

type_synonym reply = "js_error + PredictionResponse"

record transport =
  post_predictions :: reply
  post_wait :: reply
  get_prediction :: "nat \<Rightarrow> reply"

datatype event =
    HttpPostCreate PredictionInput
  | HttpGet string
  | HttpPostWait string int
  | Sleep int
  | Progress PredictionResponse

type_synonym 'a outcome = "(js_error + 'a) \<times> event list"

section \<open>Client (index.ts)\<close>

text \<open>\<open>a || d\<close> on an optional number: undefined and 0 are falsy.\<close>

definition or_default :: "int option \<Rightarrow> int \<Rightarrow> int" where
  "or_default a d = (case a of None \<Rightarrow> d | Some n \<Rightarrow> if n = 0 then d else n)"

text \<open>createPrediction, lines 64-74.\<close>

definition createPrediction :: "transport \<Rightarrow> PredictionInput \<Rightarrow> PredictionResponse outcome" where
  "createPrediction client inp =
     (case post_predictions client of
        Inr data \<Rightarrow> (Inr data, [HttpPostCreate inp])
      | Inl err \<Rightarrow>
          (if isAxiosError err
           then (Inl (new_Error (''Failed to create prediction: '' @ message err)),
                 [HttpPostCreate inp])
           else (Inl err, [HttpPostCreate inp])))"

text \<open>getPrediction, lines 76-86; \<open>k\<close> is the number of status fetches made before.\<close>

definition getPrediction :: "transport \<Rightarrow> nat \<Rightarrow> string \<Rightarrow> PredictionResponse outcome" where
  "getPrediction client k pid =
     (case get_prediction client k of
        Inr data \<Rightarrow> (Inr data, [HttpGet pid])
      | Inl err \<Rightarrow>
          (if isAxiosError err
           then (Inl (new_Error (''Failed to get prediction: '' @ message err)), [HttpGet pid])
           else (Inl err, [HttpGet pid])))"

text \<open>\<open>signal?.aborted\<close>: undefined, hence falsy, without a signal.\<close>

definition signal_aborted :: "AbortSignal option \<Rightarrow> nat \<Rightarrow> bool" where
  "signal_aborted signal k = (case signal of None \<Rightarrow> False | Some s \<Rightarrow> s k)"

definition call_progress :: "bool \<Rightarrow> PredictionResponse \<Rightarrow> event list" where
  "call_progress progress p = (if progress then [Progress p] else [])"

text \<open>
  The while loop of waitWithPolling, lines 97-108. It has no bound of its own: where the
  server never reports a terminal status and nobody cancels, it does not return, and the
  value is \<open>None\<close>. The accumulator \<open>tr\<close> is the trace so far.
\<close>

partial_function (option) polling_loop ::
  "transport \<Rightarrow> int \<Rightarrow> AbortSignal option \<Rightarrow> bool \<Rightarrow> nat \<Rightarrow> PredictionResponse \<Rightarrow> event list
     \<Rightarrow> PredictionResponse outcome option"
where
  "polling_loop client ival signal progress k currentPrediction tr =
     (if status currentPrediction \<noteq> ''succeeded'' \<and> status currentPrediction \<noteq> ''failed''
      then
        (if signal_aborted signal k
         then Some (Inl (new_Error ''Prediction cancelled''), tr)
         else
           (case getPrediction client k (id' currentPrediction) of
              (Inl err, evs) \<Rightarrow> Some (Inl err, tr @ [Sleep ival] @ evs)
            | (Inr fetched, evs) \<Rightarrow>
                polling_loop client ival signal progress (Suc k) fetched
                  (tr @ [Sleep ival] @ evs @ call_progress progress fetched)))
      else Some (Inr currentPrediction, tr))"

declare polling_loop.simps [code]

text \<open>waitWithPolling, lines 88-115.\<close>

definition waitWithPolling ::
  "transport \<Rightarrow> PredictionResponse \<Rightarrow> WaitOptions \<Rightarrow> AbortSignal option \<Rightarrow> bool
     \<Rightarrow> PredictionResponse outcome option"
where
  "waitWithPolling client prediction options signal progress =
     (case polling_loop client (or_default (interval options) 500) signal progress 0 prediction [] of
        None \<Rightarrow> None
      | Some (Inl err, tr) \<Rightarrow> Some (Inl err, tr)
      | Some (Inr currentPrediction, tr) \<Rightarrow>
          (if status currentPrediction = ''failed''
           then Some (Inl (new_Error (''Prediction failed: '' @ template_str (error currentPrediction))), tr)
           else Some (Inr currentPrediction, tr)))"

text \<open>
  waitWithBlock, lines 117-147. The \<open>throw\<close> of line 136 is inside the \<open>try\<close> block, so the
  \<open>catch\<close> of line 140 receives it like any value the POST throws.
\<close>

definition waitWithBlock_catch ::
  "transport \<Rightarrow> PredictionResponse \<Rightarrow> WaitOptions \<Rightarrow> AbortSignal option \<Rightarrow> bool
     \<Rightarrow> js_error \<Rightarrow> event list \<Rightarrow> PredictionResponse outcome option"
where
  "waitWithBlock_catch client prediction options signal progress err tr =
     (if instanceof_Error err \<and> name err = ''AbortError''
      then Some (Inl (new_Error ''Prediction cancelled''), tr)
      else map_option (\<lambda>(r, evs). (r, tr @ evs))
             (waitWithPolling client prediction options signal progress))"

definition waitWithBlock ::
  "transport \<Rightarrow> PredictionResponse \<Rightarrow> WaitOptions \<Rightarrow> AbortSignal option \<Rightarrow> bool
     \<Rightarrow> PredictionResponse outcome option"
where
  "waitWithBlock client prediction options signal progress =
     (let posted = [HttpPostWait (id' prediction) (or_default (timeout options) 60)] in
      case post_wait client of
        Inl err \<Rightarrow> waitWithBlock_catch client prediction options signal progress err posted
      | Inr result \<Rightarrow>
          (if status result = ''failed''
           then waitWithBlock_catch client prediction options signal progress
                  (new_Error (''Prediction failed: '' @ template_str (error result)))
                  (posted @ call_progress progress result)
           else Some (Inr result, posted @ call_progress progress result)))"

text \<open>wait, lines 149-166.\<close>

definition wait ::
  "transport \<Rightarrow> PredictionResponse \<Rightarrow> WaitOptions \<Rightarrow> AbortSignal option \<Rightarrow> bool
     \<Rightarrow> PredictionResponse outcome option"
where
  "wait client prediction options signal progress =
     (let waitType = (case type options of None \<Rightarrow> Block | Some t \<Rightarrow> t) in
      map_option (\<lambda>(r, evs). (r, call_progress progress prediction @ evs))
        (if waitType = Block
         then waitWithBlock client prediction options signal progress
         else waitWithPolling client prediction options signal progress))"

section \<open>FileOutput (file-output.ts)\<close>

text \<open>
  The byte fetch (\<open>fetch(url).then(res => res.blob())\<close>) is the platform's. The state of
  the platform is the list of the URLs fetched so far, and the promise a fetch returns is
  the position of that fetch in the list: what the promise settles to, bytes or a failure,
  is a function of it. The \<open>Readable\<close> side of the class plays no part here.
\<close>

type_synonym promise = nat

record FileOutput =
  url' :: string
  blob' :: "promise option"

text \<open>The constructor, lines 7-10.\<close>

definition new_FileOutput :: "string \<Rightarrow> FileOutput" where
  "new_FileOutput u = \<lparr>url' = u, blob' = None\<rparr>"

text \<open>url(), lines 12-14.\<close>

definition url :: "FileOutput \<Rightarrow> string" where
  "url this = url' this"

text \<open>
  blob(), lines 16-21: the promise that the caller's await follows, the object after the
  call and the fetches after the call. The body has no await, so a call runs to its end
  before any other call starts.
\<close>

definition blob :: "FileOutput \<Rightarrow> string list \<Rightarrow> promise \<times> FileOutput \<times> string list" where
  "blob this fetches =
     (case blob' this of
        None \<Rightarrow>
          (let p = length fetches
           in (p, this\<lparr>blob' := Some p\<rparr>, fetches @ [url' this]))
      | Some p \<Rightarrow> (p, this, fetches))"

text \<open>\<open>n\<close> calls of blob() on one object, one after the other, and the promises they return.\<close>

fun blob_calls :: "nat \<Rightarrow> FileOutput \<Rightarrow> string list \<Rightarrow> promise list \<times> FileOutput \<times> string list" where
  "blob_calls 0 this fetches = ([], this, fetches)"
| "blob_calls (Suc n) this fetches =
     (case blob this fetches of
        (p, this1, fetches1) \<Rightarrow>
          (case blob_calls n this1 fetches1 of
             (ps, this2, fetches2) \<Rightarrow> (p # ps, this2, fetches2)))"

section \<open>run (index.ts, lines 168-199)\<close>

text \<open>
  \<open>String.prototype.split\<close> with a separator of one character: the pieces between the
  separators, never an empty array. A character is a byte; the separators used are ASCII,
  so the pieces are the same whatever the encoding of the rest.
\<close>

fun split :: "char \<Rightarrow> string \<Rightarrow> string list" where
  "split sep [] = ['''']"
| "split sep (c # cs) =
     (if c = sep then [] # split sep cs
      else (let r = split sep cs in (c # hd r) # tl r))"

definition startsWith :: "string \<Rightarrow> string \<Rightarrow> bool" where
  "startsWith s p = (take (length p) s = p)"

text \<open>An element of the array run returns: \<open>string | FileOutput\<close>.\<close>

datatype run_item = Str string | File FileOutput

text \<open>
  Lines 172-173 and the template literal of line 176. Line 172 destructures the first two
  pieces (\<open>owner\<close> and \<open>model\<close>, here \<open>model_str\<close>); with one piece only, \<open>model\<close> is
  undefined and line 173 throws. Line 173 keeps the first piece of \<open>model\<close> as \<open>name\<close>.
\<close>

definition model_of_identifier :: "string \<Rightarrow> js_error + string" where
  "model_of_identifier identifier =
     (case split CHR ''/'' identifier of
        owner # model_str # rest \<Rightarrow> Inr (owner @ ''/'' @ hd (split CHR '':'' model_str))
      | _ \<Rightarrow> Inl TypeError_split_of_undefined)"

text \<open>Lines 193-198.\<close>

definition map_output :: "string \<Rightarrow> run_item" where
  "map_output out = (if startsWith out ''http'' then File (new_FileOutput out) else Str out)"

text \<open>run. A missing \<open>options.wait\<close> is the default \<open>{}\<close> of wait's parameter.\<close>

definition run :: "transport \<Rightarrow> string \<Rightarrow> RunOptions \<Rightarrow> run_item list outcome option" where
  "run client identifier options =
     (case model_of_identifier identifier of
        Inl err \<Rightarrow> Some (Inl err, [])
      | Inr m \<Rightarrow>
          (case createPrediction client
                  \<lparr>pi_model = m, pi_input = ro_input options,
                   pi_webhook = ro_webhook options,
                   pi_webhook_events_filter = ro_webhook_events_filter options\<rparr> of
             (Inl err, evs) \<Rightarrow> Some (Inl err, evs)
           | (Inr prediction, evs) \<Rightarrow>
               (case wait client prediction
                       (case ro_wait options of
                          None \<Rightarrow> \<lparr>type = None, interval = None, timeout = None\<rparr>
                        | Some w \<Rightarrow> w)
                       (ro_signal options) (ro_progress options) of
                  None \<Rightarrow> None
                | Some (Inl err, evs1) \<Rightarrow> Some (Inl err, evs @ evs1)
                | Some (Inr result, evs1) \<Rightarrow>
                    (case output' result of
                       None \<Rightarrow>
                         Some (Inl (new_Error ''No output received from the prediction''),
                               evs @ evs1)
                     | Some outs \<Rightarrow> Some (Inr (map map_output outs), evs @ evs1)))))"

section \<open>Reading a trace\<close>

text \<open>The status of a snapshot that ends the loop of line 97.\<close>

definition terminal :: "PredictionResponse \<Rightarrow> bool" where
  "terminal p = (status p = ''succeeded'' \<or> status p = ''failed'')"

text \<open>The snapshots the progress callback was invoked with, in order.\<close>

fun progress_calls :: "event list \<Rightarrow> PredictionResponse list" where
  "progress_calls [] = []"
| "progress_calls (Progress p # es) = p # progress_calls es"
| "progress_calls (e # es) = progress_calls es"

text \<open>The ids of the status fetches made, in order.\<close>

fun status_fetches :: "event list \<Rightarrow> string list" where
  "status_fetches [] = []"
| "status_fetches (HttpGet i # es) = i # status_fetches es"
| "status_fetches (e # es) = status_fetches es"

text \<open>
  The events of a polling run that starts at \<open>cur\<close> and fetches \<open>rs\<close>: each round sleeps,
  fetches with the id of the snapshot it holds, and reports the snapshot fetched.
\<close>

fun poll_events :: "int \<Rightarrow> bool \<Rightarrow> PredictionResponse \<Rightarrow> PredictionResponse list \<Rightarrow> event list" where
  "poll_events ival progress cur [] = []"
| "poll_events ival progress cur (r # rs) =
     [Sleep ival, HttpGet (id' cur)] @ call_progress progress r @ poll_events ival progress r rs"

section \<open>Example inputs\<close>

definition example_prediction :: PredictionResponse where
  "example_prediction =
     \<lparr>id' = ''p1'', model = ''owner/name'', version = None, input' = [(''prompt'', ''x'')],
      logs = None, output' = None, error = None, status = ''starting'',
      created_at = ''2024-01-01T00:00:00Z'', started_at = None, completed_at = None,
      metrics = None\<rparr>"

definition example_processing :: PredictionResponse where
  "example_processing = example_prediction\<lparr>status := ''processing''\<rparr>"

definition example_succeeded :: PredictionResponse where
  "example_succeeded = example_prediction\<lparr>status := ''succeeded'', output' := Some [''hello'']\<rparr>"

definition example_failed :: PredictionResponse where
  "example_failed = example_prediction\<lparr>status := ''failed'', error := Some ''boom''\<rparr>"

definition example_file_result :: PredictionResponse where
  "example_file_result =
     example_prediction\<lparr>status := ''succeeded'', output' := Some [''https://host/file.png'']\<rparr>"

definition example_no_output :: PredictionResponse where
  "example_no_output = example_prediction\<lparr>status := ''succeeded''\<rparr>"

definition example_empty_output :: PredictionResponse where
  "example_empty_output = example_prediction\<lparr>status := ''succeeded'', output' := Some []\<rparr>"

definition network_error :: js_error where
  "network_error =
     \<lparr>instanceof_Error = True, name = ''AxiosError'', message = ''Network Error'',
      isAxiosError = True\<rparr>"

text \<open>
  What axios throws when the signal passed to a request is aborted while the request is
  held open: a \<open>CanceledError\<close>, an \<open>AxiosError\<close> whose name is \<open>CanceledError\<close>.
\<close>

definition canceled_error :: js_error where
  "canceled_error =
     \<lparr>instanceof_Error = True, name = ''CanceledError'', message = ''canceled'',
      isAxiosError = True\<rparr>"

text \<open>The server of the spec's scenario: \<open>processing\<close>, then \<open>succeeded\<close> with \<open>["hello"]\<close>.\<close>

definition scenario_replies :: "nat \<Rightarrow> reply" where
  "scenario_replies k = (if k = 0 then Inr example_processing else Inr example_succeeded)"

text \<open>The same server behind a blocking endpoint that fails with a network error.\<close>

definition scenario_transport :: transport where
  "scenario_transport =
     \<lparr>post_predictions = Inr example_prediction, post_wait = Inl network_error,
      get_prediction = scenario_replies\<rparr>"

text \<open>A server that reports the job failed, on the blocking request and on every fetch.\<close>

definition failed_block_transport :: transport where
  "failed_block_transport =
     \<lparr>post_predictions = Inr example_prediction, post_wait = Inr example_failed,
      get_prediction = (\<lambda>k. Inr example_failed)\<rparr>"

text \<open>The same blocking reply, with the network down afterwards.\<close>

definition failed_block_offline_transport :: transport where
  "failed_block_offline_transport =
     \<lparr>post_predictions = Inr example_prediction, post_wait = Inr example_failed,
      get_prediction = (\<lambda>k. Inl network_error)\<rparr>"

text \<open>A blocking request that is aborted while it is held open.\<close>

definition aborted_block_transport :: transport where
  "aborted_block_transport =
     \<lparr>post_predictions = Inr example_prediction, post_wait = Inl canceled_error,
      get_prediction = scenario_replies\<rparr>"

text \<open>A server that answers the blocking request, and every fetch, with \<open>result\<close>.\<close>

definition answering :: "PredictionResponse \<Rightarrow> transport" where
  "answering result =
     \<lparr>post_predictions = Inr example_prediction, post_wait = Inr result,
      get_prediction = (\<lambda>k. Inr result)\<rparr>"

definition offline_transport :: transport where
  "offline_transport =
     \<lparr>post_predictions = Inl network_error, post_wait = Inl network_error,
      get_prediction = (\<lambda>k. Inl network_error)\<rparr>"

definition poll_options :: WaitOptions where
  "poll_options = \<lparr>type = Some Poll, interval = Some 10, timeout = None\<rparr>"

definition block_options :: WaitOptions where
  "block_options = \<lparr>type = None, interval = None, timeout = None\<rparr>"

definition never_aborted :: AbortSignal where
  "never_aborted k = False"

definition already_aborted :: AbortSignal where
  "already_aborted k = True"

definition example_run_options :: RunOptions where
  "example_run_options =
     \<lparr>ro_input = [(''prompt'', ''x'')], ro_wait = None, ro_webhook = None,
      ro_webhook_events_filter = None, ro_signal = None, ro_progress = False\<rparr>"

lemmas example_defs =
  example_prediction_def example_processing_def example_succeeded_def example_failed_def
  example_file_result_def example_no_output_def example_empty_output_def
  network_error_def canceled_error_def scenario_replies_def scenario_transport_def
  failed_block_transport_def failed_block_offline_transport_def aborted_block_transport_def
  answering_def offline_transport_def poll_options_def block_options_def
  never_aborted_def already_aborted_def example_run_options_def

lemmas wait_defs =
  wait_def waitWithBlock_def waitWithBlock_catch_def waitWithPolling_def polling_loop.simps
  getPrediction_def call_progress_def signal_aborted_def or_default_def template_str_def
  new_Error_def

lemmas run_defs =
  run_def model_of_identifier_def createPrediction_def map_output_def startsWith_def
  new_FileOutput_def url_def Let_def

section \<open>The polling loop\<close>

lemma polling_loop_terminal:
  "terminal cur \<Longrightarrow> polling_loop client ival signal progress k cur tr = Some (Inr cur, tr)"
  by (subst polling_loop.simps) (auto simp: terminal_def)

lemma polling_loop_aborted:
  "\<not> terminal cur \<Longrightarrow> signal_aborted signal k \<Longrightarrow>
   polling_loop client ival signal progress k cur tr =
     Some (Inl (new_Error ''Prediction cancelled''), tr)"
  by (subst polling_loop.simps) (auto simp: terminal_def)

lemma polling_loop_fetch:
  "\<not> terminal cur \<Longrightarrow> \<not> signal_aborted signal k \<Longrightarrow> get_prediction client k = Inr r \<Longrightarrow>
   polling_loop client ival signal progress k cur tr =
     polling_loop client ival signal progress (Suc k) r
       (tr @ [Sleep ival, HttpGet (id' cur)] @ call_progress progress r)"
  by (subst polling_loop.simps) (auto simp: terminal_def getPrediction_def)

text \<open>
  A run of the loop over the fetched snapshots \<open>rs\<close>, from any round \<open>k\<close>, any current
  snapshot and any trace: induction on \<open>rs\<close> with the three generalised.
\<close>

lemma polling_loop_run:
  "\<not> terminal cur \<Longrightarrow> rs \<noteq> [] \<Longrightarrow> \<forall>r \<in> set (butlast rs). \<not> terminal r \<Longrightarrow>
   terminal (last rs) \<Longrightarrow>
   \<forall>i < length rs. get_prediction client (k + i) = Inr (rs ! i) \<Longrightarrow>
   \<forall>i < length rs. \<not> signal_aborted signal (k + i) \<Longrightarrow>
   polling_loop client ival signal progress k cur tr =
     Some (Inr (last rs), tr @ poll_events ival progress cur rs)"
proof (induction rs arbitrary: k cur tr)
  case Nil
  then show ?case by simp
next
  case (Cons r rs)
  have g0: "get_prediction client k = Inr r" using Cons.prems(5) by force
  have a0: "\<not> signal_aborted signal k" using Cons.prems(6) by force
  have step: "polling_loop client ival signal progress k cur tr =
     polling_loop client ival signal progress (Suc k) r
       (tr @ [Sleep ival, HttpGet (id' cur)] @ call_progress progress r)"
    by (rule polling_loop_fetch[OF Cons.prems(1) a0 g0])
  show ?case
  proof (cases "rs = []")
    case True
    with Cons.prems(4) have "terminal r" by simp
    with step True show ?thesis by (simp add: polling_loop_terminal)
  next
    case False
    have nt: "\<not> terminal r" using Cons.prems(3) False by simp
    have bl: "\<forall>x \<in> set (butlast rs). \<not> terminal x" using Cons.prems(3) False by simp
    have tl: "terminal (last rs)" using Cons.prems(4) False by simp
    have gs: "\<forall>i < length rs. get_prediction client (Suc k + i) = Inr (rs ! i)"
    proof (intro allI impI)
      fix i assume "i < length rs"
      then have "Suc i < length (r # rs)" by simp
      with Cons.prems(5) have "get_prediction client (k + Suc i) = Inr ((r # rs) ! Suc i)"
        by blast
      then show "get_prediction client (Suc k + i) = Inr (rs ! i)" by simp
    qed
    have as: "\<forall>i < length rs. \<not> signal_aborted signal (Suc k + i)"
    proof (intro allI impI)
      fix i assume "i < length rs"
      then have "Suc i < length (r # rs)" by simp
      with Cons.prems(6) have "\<not> signal_aborted signal (k + Suc i)" by blast
      then show "\<not> signal_aborted signal (Suc k + i)" by simp
    qed
    from Cons.IH[OF nt False bl tl gs as] step False show ?thesis by simp
  qed
qed

lemma progress_calls_append:
  "progress_calls (xs @ ys) = progress_calls xs @ progress_calls ys"
  by (induction xs rule: progress_calls.induct) auto

lemma status_fetches_append:
  "status_fetches (xs @ ys) = status_fetches xs @ status_fetches ys"
  by (induction xs rule: status_fetches.induct) auto

lemma progress_calls_poll_events:
  "progress_calls (poll_events ival progress cur rs) = (if progress then rs else [])"
  by (induction rs arbitrary: cur) (auto simp: call_progress_def)

lemma status_fetches_poll_events:
  "rs \<noteq> [] \<Longrightarrow> status_fetches (poll_events ival progress cur rs) = map id' (cur # butlast rs)"
  by (induction rs arbitrary: cur) (auto simp: call_progress_def status_fetches_append)

section \<open>wait\<close>

lemma waitWithPolling_terminal:
  "terminal prediction \<Longrightarrow>
   waitWithPolling client prediction options signal progress =
     Some (if status prediction = ''failed''
           then Inl (new_Error (''Prediction failed: '' @ template_str (error prediction)))
           else Inr prediction, [])"
  by (simp add: waitWithPolling_def polling_loop_terminal)

lemma waitWithPolling_aborted:
  "\<not> terminal prediction \<Longrightarrow> signal_aborted signal 0 \<Longrightarrow>
   waitWithPolling client prediction options signal progress =
     Some (Inl (new_Error ''Prediction cancelled''), [])"
  by (simp add: waitWithPolling_def polling_loop_aborted)

lemma wait_poll:
  "type options = Some Poll \<Longrightarrow>
   wait client prediction options signal progress =
     map_option (\<lambda>(r, evs). (r, call_progress progress prediction @ evs))
       (waitWithPolling client prediction options signal progress)"
  by (simp add: wait_def)

lemma wait_block:
  "type options \<noteq> Some Poll \<Longrightarrow>
   wait client prediction options signal progress =
     map_option (\<lambda>(r, evs). (r, call_progress progress prediction @ evs))
       (waitWithBlock client prediction options signal progress)"
  by (cases "type options") (auto simp: wait_def intro: wait_type.exhaust)

text \<open>
  Claim C1, evaluated on the code. The handle is \<open>starting\<close> and the blocking request answers
  a snapshot with status \<open>failed\<close> and error \<open>boom\<close>. The error thrown at line 136 is caught
  at line 140, is no \<open>AbortError\<close>, and the call goes on to poll the original handle: it
  sleeps and fetches the status. Where the fetch answers \<open>failed\<close> too, the failure is
  reported only after that further request; where the network is down by then, the error
  of the wait is the one of the status fetch.
\<close>

theorem block_failed_reply_starts_polling:
  "wait failed_block_transport example_prediction block_options None True =
     Some (Inl (new_Error ''Prediction failed: boom''),
           [Progress example_prediction, HttpPostWait ''p1'' 60, Progress example_failed,
            Sleep 500, HttpGet ''p1'', Progress example_failed])
   \<and> wait failed_block_offline_transport example_prediction block_options None True =
     Some (Inl (new_Error ''Failed to get prediction: Network Error''),
           [Progress example_prediction, HttpPostWait ''p1'' 60, Progress example_failed,
            Sleep 500, HttpGet ''p1''])"
  by (simp add: wait_defs example_defs)

text \<open>
  Claim C2. In block mode, when the blocking request throws anything but an \<open>AbortError\<close>,
  wait is waitWithPolling on the same handle, options, signal and progress callback: it
  returns what the polling returns (and does not return where the polling does not), and
  its effects are the initial progress call, the blocking request, then those of the
  polling. The error of the blocking request appears nowhere.
\<close>

theorem block_failure_falls_back_to_polling:
  assumes "type options \<noteq> Some Poll"
    and "post_wait client = Inl err"
    and "\<not> (instanceof_Error err \<and> name err = ''AbortError'')"
  shows "wait client prediction options signal progress =
           map_option
             (\<lambda>(r, evs). (r, call_progress progress prediction
                               @ [HttpPostWait (id' prediction) (or_default (timeout options) 60)]
                               @ evs))
             (waitWithPolling client prediction options signal progress)"
proof -
  have "waitWithBlock client prediction options signal progress =
          map_option
            (\<lambda>(r, evs). (r, [HttpPostWait (id' prediction) (or_default (timeout options) 60)] @ evs))
            (waitWithPolling client prediction options signal progress)"
    using assms(2,3) by (auto simp: waitWithBlock_def waitWithBlock_catch_def Let_def)
  then show ?thesis using assms(1)
    by (simp add: wait_block option.map_comp comp_def case_prod_unfold)
qed

text \<open>
  Witness of C2: the blocking request fails with a network error, the server then answers
  \<open>processing\<close> and \<open>succeeded\<close>, and wait returns the \<open>succeeded\<close> snapshot.
\<close>

theorem block_failure_falls_back_to_polling_witness:
  "type block_options \<noteq> Some Poll \<and> post_wait scenario_transport = Inl network_error
   \<and> name network_error \<noteq> ''AbortError''
   \<and> waitWithPolling scenario_transport example_prediction block_options None True =
       Some (Inr example_succeeded,
             [Sleep 500, HttpGet ''p1'', Progress example_processing,
              Sleep 500, HttpGet ''p1'', Progress example_succeeded])
   \<and> wait scenario_transport example_prediction block_options None True =
       Some (Inr example_succeeded,
             [Progress example_prediction, HttpPostWait ''p1'' 60,
              Sleep 500, HttpGet ''p1'', Progress example_processing,
              Sleep 500, HttpGet ''p1'', Progress example_succeeded])"
proof -
  have p: "waitWithPolling scenario_transport example_prediction block_options None True =
       Some (Inr example_succeeded,
             [Sleep 500, HttpGet ''p1'', Progress example_processing,
              Sleep 500, HttpGet ''p1'', Progress example_succeeded])"
    by (simp add: wait_defs example_defs)
  have h1: "type block_options \<noteq> Some Poll" by (simp add: block_options_def)
  have h2: "post_wait scenario_transport = Inl network_error"
    by (simp add: scenario_transport_def)
  have h3: "\<not> (instanceof_Error network_error \<and> name network_error = ''AbortError'')"
    by (simp add: network_error_def)
  have h4: "name network_error \<noteq> ''AbortError''" by (simp add: network_error_def)
  show ?thesis
    using block_failure_falls_back_to_polling [OF h1 h2 h3, of example_prediction None True]
      p h1 h2 h4
    by (simp add: call_progress_def or_default_def block_options_def example_prediction_def)
qed

text \<open>
  Claim C3. Poll mode, a handle that is not terminal, and a server whose successive status
  replies are the snapshots \<open>rs\<close>, none terminal but the last, which is \<open>succeeded\<close>; the
  signal, if any, is not aborted when the loop reads it. Then wait returns the last of
  \<open>rs\<close>. Its first effect is the progress call on the initial snapshot (if a callback was
  supplied); in what follows the progress calls are exactly \<open>rs\<close>, in order (none without a
  callback), and there is one status fetch per element of \<open>rs\<close>, each with the id of the
  snapshot held at that moment.
\<close>

theorem wait_poll_succeeded:
  assumes "type options = Some Poll"
    and "status prediction \<noteq> ''succeeded'' \<and> status prediction \<noteq> ''failed''"
    and "rs \<noteq> []"
    and "\<forall>r \<in> set (butlast rs). status r \<noteq> ''succeeded'' \<and> status r \<noteq> ''failed''"
    and "status (last rs) = ''succeeded''"
    and "\<forall>i < length rs. get_prediction client i = Inr (rs ! i)"
    and "\<forall>i < length rs. \<not> signal_aborted signal i"
  shows "\<exists>tr. wait client prediction options signal progress =
                Some (Inr (last rs), call_progress progress prediction @ tr)
              \<and> progress_calls tr = (if progress then rs else [])
              \<and> status_fetches tr = map id' (prediction # butlast rs)"
proof -
  let ?tr = "poll_events (or_default (interval options) 500) progress prediction rs"
  have nt: "\<not> terminal prediction" using assms(2) by (simp add: terminal_def)
  have bl: "\<forall>r \<in> set (butlast rs). \<not> terminal r" using assms(4) by (simp add: terminal_def)
  have tl: "terminal (last rs)" using assms(5) by (simp add: terminal_def)
  have g: "\<forall>i < length rs. get_prediction client (0 + i) = Inr (rs ! i)"
    using assms(6) by simp
  have a: "\<forall>i < length rs. \<not> signal_aborted signal (0 + i)" using assms(7) by simp
  have "polling_loop client (or_default (interval options) 500) signal progress 0 prediction [] =
          Some (Inr (last rs), [] @ ?tr)"
    by (rule polling_loop_run[OF nt assms(3) bl tl g a])
  then have "waitWithPolling client prediction options signal progress =
               Some (Inr (last rs), ?tr)"
    using assms(5) by (simp add: waitWithPolling_def)
  then have "wait client prediction options signal progress =
                Some (Inr (last rs), call_progress progress prediction @ ?tr)"
    using assms(1) by (simp add: wait_poll)
  moreover have "progress_calls ?tr = (if progress then rs else [])"
    by (rule progress_calls_poll_events)
  moreover have "status_fetches ?tr = map id' (prediction # butlast rs)"
    by (rule status_fetches_poll_events[OF assms(3)])
  ultimately show ?thesis by blast
qed

text \<open>
  Witness of C3, the scenario of the spec: the handle is \<open>starting\<close>, the server answers
  \<open>processing\<close>, then \<open>succeeded\<close>; three progress calls, two fetches.
\<close>

theorem wait_poll_succeeded_witness:
  "type poll_options = Some Poll
   \<and> status example_prediction = ''starting''
   \<and> status example_processing = ''processing''
   \<and> status example_succeeded = ''succeeded''
   \<and> get_prediction scenario_transport 0 = Inr example_processing
   \<and> get_prediction scenario_transport 1 = Inr example_succeeded
   \<and> (\<exists>tr. wait scenario_transport example_prediction poll_options (Some never_aborted) True =
              Some (Inr example_succeeded, [Progress example_prediction] @ tr)
            \<and> progress_calls tr = [example_processing, example_succeeded]
            \<and> status_fetches tr = [''p1'', ''p1''])"
proof -
  have h1: "type poll_options = Some Poll" by (simp add: poll_options_def)
  have h2: "status example_prediction \<noteq> ''succeeded'' \<and> status example_prediction \<noteq> ''failed''"
    by (simp add: example_prediction_def)
  have h3: "[example_processing, example_succeeded] \<noteq> []" by simp
  have h4: "\<forall>r \<in> set (butlast [example_processing, example_succeeded]).
              status r \<noteq> ''succeeded'' \<and> status r \<noteq> ''failed''"
    by (simp add: example_processing_def example_prediction_def)
  have h5: "status (last [example_processing, example_succeeded]) = ''succeeded''"
    by (simp add: example_succeeded_def)
  have h6: "\<forall>i < length [example_processing, example_succeeded].
         get_prediction scenario_transport i = Inr ([example_processing, example_succeeded] ! i)"
    by (simp add: scenario_transport_def scenario_replies_def All_less_Suc)
  have h7: "\<forall>i < length [example_processing, example_succeeded].
              \<not> signal_aborted (Some never_aborted) i"
    by (simp add: signal_aborted_def never_aborted_def)
  have s: "status example_prediction = ''starting''"
    "status example_processing = ''processing''"
    "status example_succeeded = ''succeeded''"
    "get_prediction scenario_transport 0 = Inr example_processing"
    "get_prediction scenario_transport 1 = Inr example_succeeded"
    by (simp_all add: example_defs)
  have i: "id' example_prediction = ''p1''" "id' example_processing = ''p1''"
    by (simp_all add: example_defs)
  show ?thesis
    using wait_poll_succeeded [OF h1 h2 h3 h4 h5 h6 h7, of True] h1 s
    by (simp add: call_progress_def i)
qed

text \<open>
  Claim C4. Poll mode and a handle whose status is already \<open>succeeded\<close> or \<open>failed\<close>: the
  only effect of wait is the initial progress call (none without a callback), no status
  fetch and no sleep; a \<open>succeeded\<close> handle is returned as it is, a \<open>failed\<close> one raises
  the error of line 111.
\<close>

theorem wait_poll_terminal_at_entry:
  assumes "type options = Some Poll"
    and "status prediction = ''succeeded'' \<or> status prediction = ''failed''"
  shows "wait client prediction options signal progress =
           Some (if status prediction = ''failed''
                 then Inl (new_Error (''Prediction failed: '' @ template_str (error prediction)))
                 else Inr prediction,
                 call_progress progress prediction)"
proof -
  from assms(2) have "terminal prediction" by (simp add: terminal_def)
  then show ?thesis using assms(1) by (simp add: wait_poll waitWithPolling_terminal)
qed

text \<open>Witness of C4: a \<open>succeeded\<close> handle and a \<open>failed\<close> one.\<close>

theorem wait_poll_terminal_at_entry_witness:
  "type poll_options = Some Poll
   \<and> status example_succeeded = ''succeeded''
   \<and> wait scenario_transport example_succeeded poll_options None True =
       Some (Inr example_succeeded, [Progress example_succeeded])
   \<and> status example_failed = ''failed''
   \<and> wait scenario_transport example_failed poll_options None True =
       Some (Inl (new_Error ''Prediction failed: boom''), [Progress example_failed])"
  using wait_poll_terminal_at_entry [of poll_options example_succeeded scenario_transport None True]
    wait_poll_terminal_at_entry [of poll_options example_failed scenario_transport None True]
  by (simp add: poll_options_def example_succeeded_def example_failed_def example_prediction_def
      call_progress_def template_str_def)

text \<open>
  Claim C6 as stated fails in poll mode for a handle that is already terminal: the loop
  condition of line 97 is tested before the signal of line 98, so with the signal aborted
  from the start wait still returns the \<open>succeeded\<close> handle.
\<close>

theorem cancelled_terminal_counterexample:
  "type poll_options = Some Poll \<and> already_aborted 0
   \<and> wait scenario_transport example_succeeded poll_options (Some already_aborted) True =
       Some (Inr example_succeeded, [Progress example_succeeded])"
  by (simp add: wait_defs example_defs)

text \<open>
  Claim C6, amended. In poll mode, with a handle that is not terminal and a signal already
  aborted at entry, wait fails with the error of line 99 and its only effect is the initial
  progress call: no sleep, no request.
\<close>

theorem wait_cancelled:
  assumes "type options = Some Poll"
    and "status prediction \<noteq> ''succeeded'' \<and> status prediction \<noteq> ''failed''"
    and "s 0"
  shows "wait client prediction options (Some s) progress =
           Some (Inl (new_Error ''Prediction cancelled''), call_progress progress prediction)"
proof -
  have nt: "\<not> terminal prediction" using assms(2) by (simp add: terminal_def)
  have ab: "signal_aborted (Some s) 0" using assms(3) by (simp add: signal_aborted_def)
  show ?thesis
    by (simp add: wait_poll[OF assms(1)] waitWithPolling_aborted[OF nt ab])
qed

text \<open>Witness of the amended C6: a \<open>starting\<close> handle and a signal aborted from the start.\<close>

theorem wait_cancelled_witness:
  "type poll_options = Some Poll \<and> status example_prediction = ''starting''
   \<and> already_aborted 0
   \<and> wait scenario_transport example_prediction poll_options (Some already_aborted) True =
       Some (Inl (new_Error ''Prediction cancelled''), [Progress example_prediction])"
proof -
  have h1: "type poll_options = Some Poll" by (simp add: poll_options_def)
  have h2: "status example_prediction \<noteq> ''succeeded'' \<and> status example_prediction \<noteq> ''failed''"
    by (simp add: example_prediction_def)
  have h4: "already_aborted 0" by (simp add: already_aborted_def)
  have s: "status example_prediction = ''starting''" by (simp add: example_prediction_def)
  show ?thesis
    using wait_cancelled [where options = poll_options and prediction = example_prediction
        and s = already_aborted and client = scenario_transport and progress = True,
        OF h1 h2 h4] h1 h4 s
    by (simp add: call_progress_def)
qed

text \<open>
  The blocking request aborted while it is held open. The test of line 141 looks for the
  name \<open>AbortError\<close>; the value axios throws is named \<open>CanceledError\<close>, so the catch block
  goes on to line 145 and polls the original handle with the aborted signal. A handle that
  is not terminal then fails at line 99, before any sleep or fetch; a handle that is
  already terminal is returned, and no cancellation is reported.
\<close>

lemma block_cancel_reaches_polling:
  "wait aborted_block_transport example_prediction block_options (Some already_aborted) True =
     Some (Inl (new_Error ''Prediction cancelled''),
           [Progress example_prediction, HttpPostWait ''p1'' 60])
   \<and> wait aborted_block_transport example_succeeded block_options (Some already_aborted) True =
     Some (Inr example_succeeded, [Progress example_succeeded, HttpPostWait ''p1'' 60])"
  by (simp add: wait_defs example_defs)

section \<open>FileOutput\<close>

lemma blob_calls_cached:
  "blob' this = Some p \<Longrightarrow> blob_calls n this fetches = (replicate n p, this, fetches)"
  by (induction n) (auto simp: blob_def)

lemma blob_calls_first:
  "blob' this = None \<Longrightarrow>
   blob_calls (Suc k) this fetches =
     (replicate (Suc k) (length fetches), this\<lparr>blob' := Some (length fetches)\<rparr>,
      fetches @ [url' this])"
  by (simp add: blob_def Let_def blob_calls_cached)

lemma blob_calls_at_most_one_fetch:
  "length (snd (snd (blob_calls n this fetches))) \<le> Suc (length fetches)"
proof (cases "blob' this")
  case None
  show ?thesis
  proof (cases n)
    case 0
    then show ?thesis by simp
  next
    case (Suc k)
    show ?thesis unfolding Suc blob_calls_first[OF None] by simp
  qed
next
  case (Some p)
  then show ?thesis by (simp add: blob_calls_cached)
qed

text \<open>
  Claim C5. On a new FileOutput, \<open>n\<close> calls of blob(), \<open>n\<close> at least 1, cause one fetch,
  of the object's URL; every call returns the promise of that fetch, which the first call
  stored, so every call settles to the same bytes or the same failure, whatever the fetch
  settles to (\<open>settle\<close>). On an object in any state, no sequence of calls adds more than one
  fetch.
\<close>

theorem blob_fetches_once:
  assumes "0 < n"
  shows "blob_calls n (new_FileOutput u) fetches =
           (replicate n (length fetches), \<lparr>url' = u, blob' = Some (length fetches)\<rparr>,
            fetches @ [u])
         \<and> map settle (fst (blob_calls n (new_FileOutput u) fetches)) =
             replicate n (settle (length fetches))
         \<and> length (snd (snd (blob_calls n this fetches))) \<le> Suc (length fetches)"
proof -
  from assms obtain k where n: "n = Suc k" by (cases n) auto
  have fresh: "blob' (new_FileOutput u) = None" by (simp add: new_FileOutput_def)
  have "blob_calls n (new_FileOutput u) fetches =
           (replicate n (length fetches), \<lparr>url' = u, blob' = Some (length fetches)\<rparr>,
            fetches @ [u])"
    unfolding n blob_calls_first[OF fresh] by (simp add: new_FileOutput_def)
  then show ?thesis using blob_calls_at_most_one_fetch[of n this fetches] by simp
qed

text \<open>Witness of C5: three calls on a new object, one fetch.\<close>

theorem blob_fetches_once_witness:
  "(0::nat) < 3
   \<and> blob_calls 3 (new_FileOutput ''https://host/file.png'') [] =
       ([0, 0, 0], \<lparr>url' = ''https://host/file.png'', blob' = Some 0\<rparr>,
        [''https://host/file.png''])"
  using blob_fetches_once [of 3 "''https://host/file.png''" "[]" id "new_FileOutput []"]
  by (simp add: numeral_3_eq_3)

section \<open>run\<close>

lemma split_nonempty: "split sep s \<noteq> []"
  by (induction s) (auto simp: Let_def)

lemma split_no_sep: "sep \<notin> set s \<Longrightarrow> split sep s = [s]"
  by (induction s) (auto simp: Let_def)

lemma split_append:
  "sep \<notin> set a \<Longrightarrow> split sep (a @ b) = (a @ hd (split sep b)) # tl (split sep b)"
  by (induction a) (auto simp: Let_def split_nonempty)

lemma split_append_sep: "sep \<notin> set a \<Longrightarrow> split sep (a @ sep # b) = a # split sep b"
  by (simp add: split_append)

lemma split_with_sep: "sep \<in> set s \<Longrightarrow> \<exists>a b rest. split sep s = a # b # rest"
proof -
  assume "sep \<in> set s"
  then obtain a b where s: "s = a @ sep # b" and a: "sep \<notin> set a"
    by (meson split_list_first)
  obtain x xs where "split sep b = x # xs"
    using split_nonempty[of sep b] by (cases "split sep b") auto
  with s a show ?thesis by (simp add: split_append_sep)
qed

lemma model_of_identifier_no_slash:
  "CHR ''/'' \<notin> set ident \<Longrightarrow> model_of_identifier ident = Inl TypeError_split_of_undefined"
  by (simp add: model_of_identifier_def split_no_sep)

lemma model_of_identifier_slash:
  "CHR ''/'' \<in> set ident \<Longrightarrow> \<exists>m. model_of_identifier ident = Inr m"
  using split_with_sep[of "CHR ''/''" ident] by (auto simp: model_of_identifier_def)

lemma model_of_identifier_owner_name:
  assumes "CHR ''/'' \<notin> set owner" "CHR ''/'' \<notin> set nm" "CHR '':'' \<notin> set nm"
  shows "model_of_identifier (owner @ ''/'' @ nm) = Inr (owner @ ''/'' @ nm)"
  using assms by (simp add: model_of_identifier_def split_append_sep split_no_sep)

lemma model_of_identifier_owner_name_version:
  assumes "CHR ''/'' \<notin> set owner" "CHR ''/'' \<notin> set nm" "CHR '':'' \<notin> set nm"
  shows "model_of_identifier (owner @ ''/'' @ nm @ '':'' @ ver) = Inr (owner @ ''/'' @ nm)"
proof -
  have "split CHR ''/'' (owner @ ''/'' @ nm @ '':'' @ ver) =
          owner # split CHR ''/'' (nm @ '':'' @ ver)"
    using assms(1) by (simp add: split_append_sep)
  moreover have "split CHR ''/'' (nm @ '':'' @ ver) =
          (nm @ hd (split CHR ''/'' ('':'' @ ver))) # tl (split CHR ''/'' ('':'' @ ver))"
    using assms(2) by (rule split_append)
  moreover have "hd (split CHR ''/'' ('':'' @ ver)) = CHR '':'' # hd (split CHR ''/'' ver)"
    by (simp add: Let_def)
  moreover have "hd (split CHR '':'' (nm @ CHR '':'' # hd (split CHR ''/'' ver))) = nm"
    using assms(3) by (simp add: split_append_sep)
  ultimately show ?thesis by (simp add: model_of_identifier_def)
qed

lemma run_parse_error:
  "model_of_identifier ident = Inl err \<Longrightarrow> run client ident options = Some (Inl err, [])"
  by (simp add: run_def)

lemma run_after_wait:
  assumes "model_of_identifier ident = Inr m"
    and "post_predictions client = Inr prediction"
    and "wait client prediction
           (case ro_wait options of
              None \<Rightarrow> \<lparr>type = None, interval = None, timeout = None\<rparr> | Some w \<Rightarrow> w)
           (ro_signal options) (ro_progress options) = Some (Inr result, evs1)"
  shows "run client ident options =
           Some (case output' result of
                   None \<Rightarrow> Inl (new_Error ''No output received from the prediction'')
                 | Some outs \<Rightarrow> Inr (map map_output outs),
                 HttpPostCreate
                   \<lparr>pi_model = m, pi_input = ro_input options, pi_webhook = ro_webhook options,
                    pi_webhook_events_filter = ro_webhook_events_filter options\<rparr> # evs1)"
  using assms by (simp add: run_def createPrediction_def split: option.splits)

lemma run_submits:
  assumes "model_of_identifier ident = Inr m"
    and "run client ident options = Some (r, tr)"
  shows "\<exists>evs. tr = HttpPostCreate
                   \<lparr>pi_model = m, pi_input = ro_input options, pi_webhook = ro_webhook options,
                    pi_webhook_events_filter = ro_webhook_events_filter options\<rparr> # evs"
proof (cases "post_predictions client")
  case (Inl err)
  with assms show ?thesis by (auto simp: run_def createPrediction_def split: if_splits)
next
  case (Inr prediction)
  with assms show ?thesis
    by (auto simp: run_def createPrediction_def split: option.splits sum.splits)
qed

lemma startsWith_http_scheme:
  assumes "take 7 s = ''http://'' \<or> take 8 s = ''https://''"
  shows "startsWith s ''http''"
proof -
  have "take 4 s = ''http''"
  proof (rule disjE[OF assms])
    assume "take 7 s = ''http://''"
    then have "take 4 (take 7 s) = take 4 ''http://''" by (rule arg_cong)
    then show ?thesis by simp
  next
    assume "take 8 s = ''https://''"
    then have "take 4 (take 8 s) = take 4 ''https://''" by (rule arg_cong)
    then show ?thesis by simp
  qed
  then show ?thesis by (simp add: startsWith_def eval_nat_numeral)
qed

lemma example_parse: "model_of_identifier ''owner/name'' = Inr ''owner/name''"
  by (simp add: model_of_identifier_def Let_def)

lemma example_wait:
  "status result \<noteq> ''failed'' \<Longrightarrow>
   wait (answering result) example_prediction
     (case ro_wait example_run_options of
        None \<Rightarrow> \<lparr>type = None, interval = None, timeout = None\<rparr> | Some w \<Rightarrow> w)
     (ro_signal example_run_options) (ro_progress example_run_options) =
   Some (Inr result, [HttpPostWait ''p1'' 60])"
  by (simp add: wait_def waitWithBlock_def call_progress_def or_default_def
      example_run_options_def answering_def example_prediction_def)

text \<open>
  Claim C7. When the wait phase of run returns a snapshot whose output is the list \<open>outs\<close>,
  run returns a list of the same length whose i-th element comes from the i-th output
  alone: an output that begins with \<open>http\<close> (the test of line 194, which every string that
  begins with \<open>http://\<close> or \<open>https://\<close> passes) is a FileOutput whose url() is that string,
  any other output is the string itself.
\<close>

theorem run_maps_each_output:
  assumes "model_of_identifier ident = Inr m"
    and "post_predictions client = Inr prediction"
    and "wait client prediction
           (case ro_wait options of
              None \<Rightarrow> \<lparr>type = None, interval = None, timeout = None\<rparr> | Some w \<Rightarrow> w)
           (ro_signal options) (ro_progress options) = Some (Inr result, evs1)"
    and "output' result = Some outs"
  shows "\<exists>items tr. run client ident options = Some (Inr items, tr)
           \<and> length items = length outs
           \<and> (\<forall>i < length outs.
                 (startsWith (outs ! i) ''http''
                    \<longrightarrow> (\<exists>f. items ! i = File f \<and> url f = outs ! i))
                 \<and> (take 7 (outs ! i) = ''http://'' \<or> take 8 (outs ! i) = ''https://''
                    \<longrightarrow> (\<exists>f. items ! i = File f \<and> url f = outs ! i))
                 \<and> (\<not> startsWith (outs ! i) ''http'' \<longrightarrow> items ! i = Str (outs ! i)))"
proof -
  let ?items = "map map_output outs"
  have r: "run client ident options =
          Some (Inr ?items,
                HttpPostCreate
                   \<lparr>pi_model = m, pi_input = ro_input options, pi_webhook = ro_webhook options,
                    pi_webhook_events_filter = ro_webhook_events_filter options\<rparr> # evs1)"
    using run_after_wait[OF assms(1-3)] assms(4) by simp
  have w: "\<And>s. startsWith s ''http'' \<Longrightarrow> \<exists>f. map_output s = File f \<and> url f = s"
    by (simp add: map_output_def url_def new_FileOutput_def)
  have e: "\<forall>i < length outs.
                 (startsWith (outs ! i) ''http''
                    \<longrightarrow> (\<exists>f. ?items ! i = File f \<and> url f = outs ! i))
                 \<and> (take 7 (outs ! i) = ''http://'' \<or> take 8 (outs ! i) = ''https://''
                    \<longrightarrow> (\<exists>f. ?items ! i = File f \<and> url f = outs ! i))
                 \<and> (\<not> startsWith (outs ! i) ''http'' \<longrightarrow> ?items ! i = Str (outs ! i))"
  proof (intro allI impI conjI)
    fix i assume "i < length outs" "startsWith (outs ! i) ''http''"
    then show "\<exists>f. ?items ! i = File f \<and> url f = outs ! i" using w by simp
  next
    fix i
    assume "i < length outs"
      "take 7 (outs ! i) = ''http://'' \<or> take 8 (outs ! i) = ''https://''"
    then show "\<exists>f. ?items ! i = File f \<and> url f = outs ! i"
      using w startsWith_http_scheme by simp
  next
    fix i assume "i < length outs" "\<not> startsWith (outs ! i) ''http''"
    then show "?items ! i = Str (outs ! i)" by (simp add: map_output_def)
  qed
  have l: "length ?items = length outs" by simp
  from r l e show ?thesis by blast
qed

text \<open>
  Witness of C7, the scenario of the spec: the output \<open>["https://host/file.png"]\<close> becomes
  one FileOutput whose url() is that string.
\<close>

theorem run_maps_each_output_witness:
  "model_of_identifier ''owner/name'' = Inr ''owner/name''
   \<and> post_predictions (answering example_file_result) = Inr example_prediction
   \<and> output' example_file_result = Some [''https://host/file.png'']
   \<and> startsWith ''https://host/file.png'' ''http''
   \<and> (\<exists>items tr. run (answering example_file_result) ''owner/name'' example_run_options
                     = Some (Inr items, tr)
          \<and> length items = 1
          \<and> (\<exists>f. items ! 0 = File f \<and> url f = ''https://host/file.png''))"
proof -
  have h2: "post_predictions (answering example_file_result) = Inr example_prediction"
    by (simp add: answering_def)
  have h3: "wait (answering example_file_result) example_prediction
           (case ro_wait example_run_options of
              None \<Rightarrow> \<lparr>type = None, interval = None, timeout = None\<rparr> | Some w \<Rightarrow> w)
           (ro_signal example_run_options) (ro_progress example_run_options) =
           Some (Inr example_file_result, [HttpPostWait ''p1'' 60])"
    by (rule example_wait) (simp add: example_file_result_def)
  have h4: "output' example_file_result = Some [''https://host/file.png'']"
    by (simp add: example_file_result_def)
  have s: "startsWith ''https://host/file.png'' ''http''" by (simp add: startsWith_def)
  show ?thesis
    using run_maps_each_output [OF example_parse h2 h3 h4] example_parse h2 h4 s by simp
qed

text \<open>
  Claim C8. When the wait phase of run returns a snapshot without output, run fails with
  the error of line 190, whatever the status of the snapshot, \<open>succeeded\<close> included.
\<close>

theorem run_without_output_fails:
  assumes "model_of_identifier ident = Inr m"
    and "post_predictions client = Inr prediction"
    and "wait client prediction
           (case ro_wait options of
              None \<Rightarrow> \<lparr>type = None, interval = None, timeout = None\<rparr> | Some w \<Rightarrow> w)
           (ro_signal options) (ro_progress options) = Some (Inr result, evs1)"
    and "output' result = None"
  shows "\<exists>tr. run client ident options =
           Some (Inl (new_Error ''No output received from the prediction''), tr)"
  using run_after_wait[OF assms(1-3)] assms(4) by simp

text \<open>Witness of C8: a \<open>succeeded\<close> snapshot whose output is null.\<close>

theorem run_without_output_fails_witness:
  "model_of_identifier ''owner/name'' = Inr ''owner/name''
   \<and> post_predictions (answering example_no_output) = Inr example_prediction
   \<and> status example_no_output = ''succeeded'' \<and> output' example_no_output = None
   \<and> (\<exists>tr. run (answering example_no_output) ''owner/name'' example_run_options =
          Some (Inl (new_Error ''No output received from the prediction''), tr))"
proof -
  have h2: "post_predictions (answering example_no_output) = Inr example_prediction"
    by (simp add: answering_def)
  have h3: "wait (answering example_no_output) example_prediction
           (case ro_wait example_run_options of
              None \<Rightarrow> \<lparr>type = None, interval = None, timeout = None\<rparr> | Some w \<Rightarrow> w)
           (ro_signal example_run_options) (ro_progress example_run_options) =
           Some (Inr example_no_output, [HttpPostWait ''p1'' 60])"
    by (rule example_wait) (simp add: example_no_output_def)
  have h4: "output' example_no_output = None"
    by (simp add: example_no_output_def example_prediction_def)
  have h5: "status example_no_output = ''succeeded''" by (simp add: example_no_output_def)
  show ?thesis
    using run_without_output_fails [OF example_parse h2 h3 h4] example_parse h2 h4 h5 by simp
qed

text \<open>
  Claim C10. When the wait phase of run returns a snapshot whose output is the empty
  list, run does not fail: it returns the empty list.
\<close>

theorem run_empty_output_is_a_result:
  assumes "model_of_identifier ident = Inr m"
    and "post_predictions client = Inr prediction"
    and "wait client prediction
           (case ro_wait options of
              None \<Rightarrow> \<lparr>type = None, interval = None, timeout = None\<rparr> | Some w \<Rightarrow> w)
           (ro_signal options) (ro_progress options) = Some (Inr result, evs1)"
    and "output' result = Some []"
  shows "\<exists>tr. run client ident options = Some (Inr [], tr)"
  using run_after_wait[OF assms(1-3)] assms(4) by simp

text \<open>Witness of C10: a \<open>succeeded\<close> snapshot whose output is \<open>[]\<close>.\<close>

theorem run_empty_output_is_a_result_witness:
  "model_of_identifier ''owner/name'' = Inr ''owner/name''
   \<and> post_predictions (answering example_empty_output) = Inr example_prediction
   \<and> status example_empty_output = ''succeeded'' \<and> output' example_empty_output = Some []
   \<and> (\<exists>tr. run (answering example_empty_output) ''owner/name'' example_run_options =
          Some (Inr [], tr))"
proof -
  have h2: "post_predictions (answering example_empty_output) = Inr example_prediction"
    by (simp add: answering_def)
  have h3: "wait (answering example_empty_output) example_prediction
           (case ro_wait example_run_options of
              None \<Rightarrow> \<lparr>type = None, interval = None, timeout = None\<rparr> | Some w \<Rightarrow> w)
           (ro_signal example_run_options) (ro_progress example_run_options) =
           Some (Inr example_empty_output, [HttpPostWait ''p1'' 60])"
    by (rule example_wait) (simp add: example_empty_output_def)
  have h4: "output' example_empty_output = Some []"
    by (simp add: example_empty_output_def)
  have h5: "status example_empty_output = ''succeeded''"
    by (simp add: example_empty_output_def)
  show ?thesis
    using run_empty_output_is_a_result [OF example_parse h2 h3 h4] example_parse h2 h4 h5
    by simp
qed

text \<open>
  Claim C9 as stated fails on \<open>a/b/c\<close>: the identifier has a \<open>/\<close>, so parsing succeeds, and
  the model submitted is \<open>a/b\<close>. That is \<open>owner + '/' + name\<close> for neither way of reading
  \<open>a/b/c\<close> as \<open>owner/name\<close>, and what is dropped is no \<open>:version\<close> suffix.
\<close>

theorem identifier_with_two_slashes_counterexample:
  "model_of_identifier ''a/b/c'' = Inr ''a/b''
   \<and> ''a/b'' \<noteq> ''a'' @ ''/'' @ ''b/c''
   \<and> ''a/b'' \<noteq> ''a/b'' @ ''/'' @ ''c''
   \<and> run offline_transport ''a/b/c'' example_run_options =
       Some (Inl (new_Error ''Failed to create prediction: Network Error''),
             [HttpPostCreate \<lparr>pi_model = ''a/b'', pi_input = [(''prompt'', ''x'')],
                pi_webhook = None, pi_webhook_events_filter = None\<rparr>])"
  by (simp add: run_defs offline_transport_def network_error_def example_run_options_def)

text \<open>
  Claim C9, amended. For an identifier without \<open>/\<close>, run fails with the engine's TypeError
  and no effect at all, so before any request; that error is none the client constructs
  with \<open>new Error\<close>. Parsing succeeds for every identifier that has a \<open>/\<close>. For \<open>owner/name\<close>
  and \<open>owner/name:version\<close>, with no \<open>/\<close> in owner and name and no \<open>:\<close> in name, the model is
  exactly \<open>owner/name\<close>. Whenever parsing gives a model and run returns, the first effect of
  run is the creating request with that model.
\<close>

theorem run_identifier_parsing:
  "(CHR ''/'' \<notin> set ident
      \<longrightarrow> run client ident options = Some (Inl TypeError_split_of_undefined, []))
   \<and> name TypeError_split_of_undefined = ''TypeError''
   \<and> (\<forall>msg. TypeError_split_of_undefined \<noteq> new_Error msg)
   \<and> (CHR ''/'' \<in> set ident \<longrightarrow> (\<exists>m. model_of_identifier ident = Inr m))
   \<and> (CHR ''/'' \<notin> set owner \<and> CHR ''/'' \<notin> set nm \<and> CHR '':'' \<notin> set nm
      \<longrightarrow> model_of_identifier (owner @ ''/'' @ nm) = Inr (owner @ ''/'' @ nm)
        \<and> model_of_identifier (owner @ ''/'' @ nm @ '':'' @ ver) = Inr (owner @ ''/'' @ nm))
   \<and> (model_of_identifier ident = Inr m \<and> run client ident options = Some (r, tr)
      \<longrightarrow> (\<exists>evs. tr = HttpPostCreate
                   \<lparr>pi_model = m, pi_input = ro_input options, pi_webhook = ro_webhook options,
                    pi_webhook_events_filter = ro_webhook_events_filter options\<rparr> # evs))"
proof (intro conjI impI allI)
  assume "CHR ''/'' \<notin> set ident"
  then show "run client ident options = Some (Inl TypeError_split_of_undefined, [])"
    by (simp add: run_parse_error model_of_identifier_no_slash)
next
  show "name TypeError_split_of_undefined = ''TypeError''"
    by (simp add: TypeError_split_of_undefined_def)
next
  fix msg show "TypeError_split_of_undefined \<noteq> new_Error msg"
    by (simp add: TypeError_split_of_undefined_def new_Error_def)
next
  assume "CHR ''/'' \<in> set ident"
  then show "\<exists>m. model_of_identifier ident = Inr m" by (rule model_of_identifier_slash)
next
  assume "CHR ''/'' \<notin> set owner \<and> CHR ''/'' \<notin> set nm \<and> CHR '':'' \<notin> set nm"
  then have "CHR ''/'' \<notin> set owner" "CHR ''/'' \<notin> set nm" "CHR '':'' \<notin> set nm"
    by simp_all
  then show "model_of_identifier (owner @ ''/'' @ nm) = Inr (owner @ ''/'' @ nm)"
    by (rule model_of_identifier_owner_name)
next
  assume "CHR ''/'' \<notin> set owner \<and> CHR ''/'' \<notin> set nm \<and> CHR '':'' \<notin> set nm"
  then have "CHR ''/'' \<notin> set owner" "CHR ''/'' \<notin> set nm" "CHR '':'' \<notin> set nm"
    by simp_all
  then show "model_of_identifier (owner @ ''/'' @ nm @ '':'' @ ver) = Inr (owner @ ''/'' @ nm)"
    by (rule model_of_identifier_owner_name_version)
next
  assume "model_of_identifier ident = Inr m \<and> run client ident options = Some (r, tr)"
  then show "\<exists>evs. tr = HttpPostCreate
                   \<lparr>pi_model = m, pi_input = ro_input options, pi_webhook = ro_webhook options,
                    pi_webhook_events_filter = ro_webhook_events_filter options\<rparr> # evs"
    using run_submits by blast
qed

text \<open>
  Witness of the amended C9: \<open>flux-schnell\<close> has no \<open>/\<close>; \<open>owner/name:v1\<close> submits
  \<open>owner/name\<close>.
\<close>

theorem run_identifier_parsing_witness:
  "CHR ''/'' \<notin> set ''flux-schnell''
   \<and> run offline_transport ''flux-schnell'' example_run_options =
       Some (Inl TypeError_split_of_undefined, [])
   \<and> CHR ''/'' \<in> set ''owner/name:v1''
   \<and> CHR ''/'' \<notin> set ''owner'' \<and> CHR ''/'' \<notin> set ''name'' \<and> CHR '':'' \<notin> set ''name''
   \<and> model_of_identifier ''owner/name'' = Inr ''owner/name''
   \<and> model_of_identifier ''owner/name:v1'' = Inr ''owner/name''
   \<and> run offline_transport ''owner/name:v1'' example_run_options =
       Some (Inl (new_Error ''Failed to create prediction: Network Error''),
             [HttpPostCreate \<lparr>pi_model = ''owner/name'', pi_input = [(''prompt'', ''x'')],
                pi_webhook = None, pi_webhook_events_filter = None\<rparr>])"
proof -
  have r: "run offline_transport ''owner/name:v1'' example_run_options =
       Some (Inl (new_Error ''Failed to create prediction: Network Error''),
             [HttpPostCreate \<lparr>pi_model = ''owner/name'', pi_input = [(''prompt'', ''x'')],
                pi_webhook = None, pi_webhook_events_filter = None\<rparr>])"
    by (simp add: run_defs offline_transport_def network_error_def example_run_options_def)
  show ?thesis
    using run_identifier_parsing [where ident = "''flux-schnell''"
        and client = offline_transport and options = example_run_options
        and owner = "''owner''" and nm = "''name''" and ver = "''v1''"]
      run_identifier_parsing [where ident = "''owner/name:v1''"
        and client = offline_transport and options = example_run_options
        and owner = "''owner''" and nm = "''name''" and ver = "''v1''"
        and m = "''owner/name''"
        and r = "Inl (new_Error ''Failed to create prediction: Network Error'')"
        and tr = "[HttpPostCreate \<lparr>pi_model = ''owner/name'', pi_input = [(''prompt'', ''x'')],
                pi_webhook = None, pi_webhook_events_filter = None\<rparr>]"]
      r
    by simp
qed

end
